theory Spec2Isabelle
  imports Main "HOL-Library.AList" "HOL-Library.Sublist"
begin

section \<open>Python strings and lists\<close>

text \<open>
  A Python \<open>str\<close> is a sequence of Unicode code points, here a list of
  integers. A literal of the source is written \<open>ustr ''...''\<close>.
\<close>

type_synonym ustring = "int list"

definition ustr :: "string \<Rightarrow> ustring" where
  "ustr s = map of_char s"

text \<open>
  The characters that \<open>str.split()\<close> and \<open>str.strip()\<close> take for whitespace:
  U+0009 to U+000D, U+001C to U+0020, U+0085, U+00A0, U+1680, U+2000 to U+200A,
  U+2028, U+2029, U+202F, U+205F and U+3000.
\<close>

definition is_space :: "int \<Rightarrow> bool" where
  "is_space n = ((9 \<le> n \<and> n \<le> 13) \<or> (28 \<le> n \<and> n \<le> 32) \<or> n = 133 \<or> n = 160 \<or>
                 n = 5760 \<or> (8192 \<le> n \<and> n \<le> 8202) \<or> n = 8232 \<or> n = 8233 \<or>
                 n = 8239 \<or> n = 8287 \<or> n = 12288)"

text \<open>
  The case conversions \<open>str.lower\<close>, \<open>str.title\<close> and \<open>str.capitalize\<close>, the
  decimal digits that \<open>\d\<close> matches and \<open>int\<close> reads, and the characters that a
  letter of a pattern matches under \<open>re.IGNORECASE\<close> come from the Unicode character
  database, which is not part of the repository: they are parameters of the model, the
  fields of \<open>unicode_db\<close>. \<open>ignorecase_eq U x c\<close> says that the pattern character
  \<open>x\<close> matches the text character \<open>c\<close> when case is ignored.
\<close>

record unicode_db =
  str_lower :: "ustring \<Rightarrow> ustring"
  str_title :: "ustring \<Rightarrow> ustring"
  str_capitalize :: "ustring \<Rightarrow> ustring"
  is_decimal :: "int \<Rightarrow> bool"
  decimal_value :: "int \<Rightarrow> int"
  ignorecase_eq :: "int \<Rightarrow> int \<Rightarrow> bool"



subsection \<open>The database on ASCII text\<close>

text \<open>
  The conversions as they act on text of code points below 128 (other code points are
  left as they are): the instance that evaluates the model on ASCII input.
\<close>

definition is_upper :: "int \<Rightarrow> bool" where
  "is_upper n = (65 \<le> n \<and> n \<le> 90)"

definition is_lower :: "int \<Rightarrow> bool" where
  "is_lower n = (97 \<le> n \<and> n \<le> 122)"

definition is_cased :: "int \<Rightarrow> bool" where
  "is_cased n = (is_upper n \<or> is_lower n)"

definition lower_char :: "int \<Rightarrow> int" where
  "lower_char n = (if is_upper n then n + 32 else n)"

definition upper_char :: "int \<Rightarrow> int" where
  "upper_char n = (if is_lower n then n - 32 else n)"

definition ascii_lower :: "ustring \<Rightarrow> ustring" where
  "ascii_lower s = map lower_char s"

text \<open>\<open>s.capitalize()\<close>: the first character upper-cased, the others lower-cased.\<close>

definition ascii_capitalize :: "ustring \<Rightarrow> ustring" where
  "ascii_capitalize s = (case s of [] \<Rightarrow> [] | c # cs \<Rightarrow> upper_char c # map lower_char cs)"

text \<open>
  \<open>s.title()\<close>: a cased character is upper-cased when the character before it
  is not cased (or there is none) and lower-cased otherwise; the flag is whether the
  previous character was cased.
\<close>

fun title_from :: "bool \<Rightarrow> ustring \<Rightarrow> ustring" where
  "title_from prev [] = []"
| "title_from prev (c # cs) =
     (if is_cased c
      then (if prev then lower_char c else upper_char c) # title_from True cs
      else c # title_from False cs)"

definition ascii_title :: "ustring \<Rightarrow> ustring" where
  "ascii_title s = title_from False s"

definition is_digit :: "int \<Rightarrow> bool" where
  "is_digit n = (48 \<le> n \<and> n \<le> 57)"

definition ascii_db :: unicode_db where
  "ascii_db = \<lparr> str_lower = ascii_lower, str_title = ascii_title,
                str_capitalize = ascii_capitalize, is_decimal = is_digit,
                decimal_value = (\<lambda>n. n - 48),
                ignorecase_eq = (\<lambda>x c. lower_char x = lower_char c) \<rparr>"


subsection \<open>Splitting, joining, slicing\<close>

text \<open>\<open>s.split()\<close>: the maximal runs of non-whitespace characters; \<open>cur\<close> is the run being read.\<close>

fun split_from :: "ustring \<Rightarrow> ustring \<Rightarrow> ustring list" where
  "split_from cur [] = (if cur = [] then [] else [cur])"
| "split_from cur (c # cs) =
     (if is_space c
      then (if cur = [] then split_from [] cs else cur # split_from [] cs)
      else split_from (cur @ [c]) cs)"

definition py_split :: "ustring \<Rightarrow> ustring list" where
  "py_split s = split_from [] s"

text \<open>\<open>sep.join(xs)\<close>\<close>

fun py_join :: "ustring \<Rightarrow> ustring list \<Rightarrow> ustring" where
  "py_join sep [] = []"
| "py_join sep [x] = x"
| "py_join sep (x # y # ys) = x @ sep @ py_join sep (y # ys)"

text \<open>
  Slices \<open>xs[lo:hi]\<close> with integer bounds: a negative bound counts from the end,
  and both bounds are clamped to the list.
\<close>

definition slice_index :: "int \<Rightarrow> nat \<Rightarrow> nat" where
  "slice_index i n = (if i < 0 then nat (max (i + int n) 0) else min (nat i) n)"

definition py_slice :: "'a list \<Rightarrow> int \<Rightarrow> int \<Rightarrow> 'a list" where
  "py_slice xs lo hi =
     (let a = slice_index lo (length xs); b = slice_index hi (length xs)
      in take (b - a) (drop a xs))"

text \<open>\<open>xs[:hi]\<close>\<close>

definition py_slice_to :: "'a list \<Rightarrow> int \<Rightarrow> 'a list" where
  "py_slice_to xs hi = py_slice xs 0 hi"

text \<open>\<open>range(n)\<close>\<close>

definition py_range :: "int \<Rightarrow> int list" where
  "py_range n = map int [0..<nat n]"

datatype py_error = TypeError | IndexError | AttributeError | ValueError | KeyError

text \<open>\<open>xs[i]\<close> for \<open>i \<ge> 0\<close>, raising out of range.\<close>

definition py_index :: "'a list \<Rightarrow> nat \<Rightarrow> py_error + 'a" where
  "py_index xs i = (if i < length xs then Inr (xs ! i) else Inl IndexError)"

section \<open>The deterministic generator (main.py)\<close>

text \<open>
  \<open>generate_content\<close> is called with no \<open>args\<close>, with an integer or with a pair,
  and returns a list of words for the topic kind and a string otherwise. The kind is
  always a literal of the source.
\<close>

datatype py_args = ArgNone | ArgInt int | ArgPair int int

datatype py_value = Str ustring | StrList "ustring list"

definition static_words :: "ustring list" where
  "static_words = map ustr [''intelligence'', ''systems'', ''automation'', ''future'',
                            ''solutions'', ''insights'', ''tech'', ''performance'', ''management'']"

definition base_words :: "unicode_db \<Rightarrow> ustring \<Rightarrow> ustring list" where
  "base_words U topic = py_split (str_lower U topic) @ static_words"

text \<open>
  The two \<open>while\<close> loops of \<open>generate_content\<close>. Neither has a bound of its own:
  they end because the list that is appended is not empty. \<open>None\<close> is a loop that
  does not end.
\<close>

partial_function (option) para_loop :: "ustring list \<Rightarrow> int \<Rightarrow> ustring list \<Rightarrow> ustring list option" where
  "para_loop base limit ws =
     (if int (length ws) < limit then para_loop base limit (ws @ base) else Some ws)"

declare para_loop.simps [code]

partial_function (option) bullet_loop :: "ustring list \<Rightarrow> ustring list \<Rightarrow> ustring list option" where
  "bullet_loop base b =
     (if length b < 6 then bullet_loop base (b @ base) else Some b)"

declare bullet_loop.simps [code]

definition bullet_line :: "ustring list \<Rightarrow> int \<Rightarrow> ustring option" where
  "bullet_line base i =
     (case bullet_loop base (py_slice base i (i + 6)) of
        None \<Rightarrow> None
      | Some b \<Rightarrow> Some (ustr ''- '' @ py_join (ustr '' '') (py_slice_to b 6)))"

definition newline :: ustring where
  "newline = [10]"

definition generate_content ::
  "unicode_db \<Rightarrow> string \<Rightarrow> ustring \<Rightarrow> py_args \<Rightarrow> (py_error + py_value) option" where
  "generate_content U placeholder_type topic args =
     (let bw = base_words U topic in
      if placeholder_type = ''topic'' then Some (Inr (StrList (py_slice_to bw 2)))
      else if placeholder_type = ''title'' \<or> placeholder_type = ''subtitle'' then
        (case args of
           ArgPair part limit \<Rightarrow>
             (let ws = (if part > 0 then py_slice bw (part - 1) (part - 1 + limit)
                        else py_slice_to bw limit)
              in Some (Inr (Str (str_title U (py_join (ustr '' '') (py_slice_to ws limit))))))
         | _ \<Rightarrow> Some (Inl TypeError))
      else if placeholder_type = ''para'' then
        (case args of
           ArgInt limit \<Rightarrow>
             (case para_loop bw limit [] of
                None \<Rightarrow> None
              | Some ws \<Rightarrow>
                  Some (Inr (Str (str_capitalize U (py_join (ustr '' '') (py_slice_to ws limit))
                                  @ ustr ''.''))))
         | _ \<Rightarrow> Some (Inl TypeError))
      else if placeholder_type = ''bullet'' then
        (case args of
           ArgInt count \<Rightarrow>
             (case those (map (bullet_line bw) (py_range count)) of
                None \<Rightarrow> None
              | Some bullets \<Rightarrow> Some (Inr (Str (py_join newline bullets))))
         | _ \<Rightarrow> Some (Inl TypeError))
      else if placeholder_type = ''thankumess'' then
        Some (Inr (Str (ustr ''Thank you for learning about '' @ topic
                        @ ustr ''! We hope it was insightful.'')))
      else if placeholder_type = ''graphimage'' then Some (Inr (Str (ustr ''[Graph Placeholder]'')))
      else if placeholder_type = ''icon'' then Some (Inr (Str (ustr ''[Icon Placeholder]'')))
      else if placeholder_type = ''personname'' then Some (Inr (Str (ustr ''Dyizan Intern'')))
      else Some (Inr (Str (ustr placeholder_type @ ustr '' for '' @ topic))))"

section \<open>Substrings and replacement\<close>

text \<open>\<open>s.startswith(p)\<close>\<close>

fun startswith :: "ustring \<Rightarrow> ustring \<Rightarrow> bool" where
  "startswith s [] = True"
| "startswith [] (p # ps) = False"
| "startswith (c # cs) (p # ps) = (c = p \<and> startswith cs ps)"

text \<open>\<open>sub in s\<close>\<close>

fun py_contains :: "ustring \<Rightarrow> ustring \<Rightarrow> bool" where
  "py_contains sub [] = (sub = [])"
| "py_contains sub (c # cs) = (startswith (c # cs) sub \<or> py_contains sub cs)"

text \<open>
  \<open>s.replace(old, new)\<close>: the occurrences of \<open>old\<close> from the left, not
  overlapping; an empty \<open>old\<close> puts \<open>new\<close> before every character and at the end.
\<close>

function py_replace :: "ustring \<Rightarrow> ustring \<Rightarrow> ustring \<Rightarrow> ustring" where
  "py_replace old new s =
     (if old = [] then new @ concat (map (\<lambda>c. c # new) s)
      else if s = [] then []
      else if startswith s old then new @ py_replace old new (drop (length old) s)
      else hd s # py_replace old new (tl s))"
  by pat_completeness auto
termination
  by (relation "measure (\<lambda>(old, new, s). length s)") auto

declare py_replace.simps [simp del]

section \<open>The document\<close>

text \<open>
  The presentation as the document library shows it: slides hold shapes, a shape with
  a text frame holds paragraphs, a paragraph holds runs, and a run holds text. A shape
  has a position and a size; a picture shape holds the bytes of its image. The identity
  of a shape (its XML element) is \<open>shape_id\<close>. \<open>title\<close> is the position of the
  slide's title shape among its shapes, when it has one.
\<close>

record shape =
  shape_id :: nat
  has_text_frame :: bool
  paragraphs :: "ustring list list"
  sh_left :: int
  sh_top :: int
  sh_width :: int
  sh_height :: int
  image :: "ustring option"

record slide =
  shapes :: "shape list"
  title :: "nat option"

type_synonym presentation = "slide list"

section \<open>Replacing in the runs (main.py)\<close>

text \<open>
  The placeholder map is a \<open>dict\<close>: an association list in insertion order, where an
  assignment to a key that is there replaces its value in place (\<open>AList.update\<close>).
  Its values are what \<open>generate_content\<close> returned.
\<close>

type_synonym placeholder_map = "(ustring \<times> py_value) list"

text \<open>
  The loop over \<open>placeholder_map.items()\<close> for one run. \<open>text\<close> is read from the run
  once, before the loop, and every replacement is made on it; \<open>cur\<close> is \<open>run.text\<close>.
  \<open>value.replace\<close> needs a string: a list raises \<open>AttributeError\<close>. The string
  \<open>[92, 110]\<close> is a backslash followed by the letter n.
\<close>

fun replace_in_run :: "placeholder_map \<Rightarrow> ustring \<Rightarrow> ustring \<Rightarrow> py_error + ustring" where
  "replace_in_run [] text cur = Inr cur"
| "replace_in_run ((ph, value) # items) text cur =
     (if py_contains ph text
      then (case value of
              Str v \<Rightarrow> replace_in_run items text (py_replace ph (py_replace [92, 110] newline v) text)
            | StrList _ \<Rightarrow> Inl AttributeError)
      else replace_in_run items text cur)"

text \<open>A loop that stops at the first exception.\<close>

fun map_err :: "('a \<Rightarrow> py_error + 'b) \<Rightarrow> 'a list \<Rightarrow> py_error + 'b list" where
  "map_err f [] = Inr []"
| "map_err f (x # xs) =
     (case f x of
        Inl e \<Rightarrow> Inl e
      | Inr y \<Rightarrow> (case map_err f xs of Inl e \<Rightarrow> Inl e | Inr ys \<Rightarrow> Inr (y # ys)))"

definition replace_in_shape :: "placeholder_map \<Rightarrow> shape \<Rightarrow> py_error + shape" where
  "replace_in_shape m sh =
     (if has_text_frame sh
      then (case map_err (map_err (\<lambda>text. replace_in_run m text text)) (paragraphs sh) of
              Inl e \<Rightarrow> Inl e
            | Inr ps \<Rightarrow> Inr (sh\<lparr>paragraphs := ps\<rparr>))
      else Inr sh)"

definition replace_placeholders :: "slide \<Rightarrow> placeholder_map \<Rightarrow> py_error + slide" where
  "replace_placeholders sl m =
     (case map_err (replace_in_shape m) (shapes sl) of
        Inl e \<Rightarrow> Inl e
      | Inr shs \<Rightarrow> Inr (sl\<lparr>shapes := shs\<rparr>))"

section \<open>Regular expressions\<close>

text \<open>
  The patterns of the two programs are sequences of literal characters and groups
  \<open>(\\d+)\<close>. \<open>match_here\<close> matches a pattern at the start of a string and returns
  the length of the match and the groups; \<open>(\\d+)\<close> takes the longest run of digits
  first and gives digits back while the rest of the pattern does not match. The flag is
  \<open>re.IGNORECASE\<close>.
\<close>

datatype pat = Lit int | Digits

definition lits :: "string \<Rightarrow> pat list" where
  "lits s = map (\<lambda>c. Lit (of_char c)) s"

fun try_down :: "(nat \<Rightarrow> 'a option) \<Rightarrow> nat \<Rightarrow> 'a option" where
  "try_down f 0 = None"
| "try_down f (Suc k) = (case f (Suc k) of Some r \<Rightarrow> Some r | None \<Rightarrow> try_down f k)"

primrec match_here :: "unicode_db \<Rightarrow> bool \<Rightarrow> pat list \<Rightarrow> ustring \<Rightarrow> (nat \<times> ustring list) option" where
  "match_here U ic [] = (\<lambda>s. Some (0, []))"
| "match_here U ic (p # ps) = (\<lambda>s.
     case p of
       Lit x \<Rightarrow>
         (case s of
            [] \<Rightarrow> None
          | c # cs \<Rightarrow>
              if (if ic then ignorecase_eq U x c else x = c)
              then map_option (\<lambda>(n, gs). (Suc n, gs)) (match_here U ic ps cs)
              else None)
     | Digits \<Rightarrow>
         try_down (\<lambda>k. map_option (\<lambda>(n, gs). (k + n, take k s # gs))
                                   (match_here U ic ps (drop k s)))
                  (length (takeWhile (is_decimal U) s)))"

text \<open>
  \<open>re.finditer\<close>: the matches from the left, not overlapping, each with its text
  \<open>group(0)\<close> and its groups. Every pattern of the programs starts with a literal, so a
  match is never empty.
\<close>

function finditer :: "unicode_db \<Rightarrow> bool \<Rightarrow> pat list \<Rightarrow> ustring \<Rightarrow> (ustring \<times> ustring list) list" where
  "finditer U ic ps s =
     (case match_here U ic ps s of
        Some (n, gs) \<Rightarrow> (take n s, gs) # (if s = [] then [] else finditer U ic ps (drop (max n 1) s))
      | None \<Rightarrow> (if s = [] then [] else finditer U ic ps (tl s)))"
  by pat_completeness auto
termination
  by (relation "measure (\<lambda>(U, ic, ps, s). length s)") auto

declare finditer.simps [simp del]

text \<open>\<open>int(s)\<close> on a string of decimal digits.\<close>

definition py_int :: "unicode_db \<Rightarrow> ustring \<Rightarrow> int" where
  "py_int U s = foldl (\<lambda>a c. 10 * a + decimal_value U c) 0 s"

section \<open>Scanning and generating (main.py)\<close>

definition patterns :: "string \<Rightarrow> pat list" where
  "patterns k =
     (if k = ''title'' then lits ''{{title'' @ [Digits] @ lits ''_'' @ [Digits] @ lits ''_'' @ [Digits] @ lits ''}}''
      else if k = ''subtitle'' then lits ''{{subtitle'' @ [Digits] @ lits ''_'' @ [Digits] @ lits ''_'' @ [Digits] @ lits ''}}''
      else if k = ''para'' then lits ''{{para'' @ [Digits] @ lits ''_'' @ [Digits] @ lits ''}}''
      else if k = ''bullet'' then lits ''{{bullet'' @ [Digits] @ lits ''_'' @ [Digits] @ lits ''}}''
      else if k = ''thankumess'' then lits ''{{thankumess}}''
      else if k = ''personname'' then lits ''{{personname}}''
      else if k = ''graphimage'' then lits ''{{graphimage}}''
      else if k = ''icon'' then lits ''{{icon'' @ [Digits] @ lits ''}}''
      else [])"

text \<open>
  A computation of the program ends with a value, ends with an exception, or does not
  end (\<open>None\<close>).
\<close>

type_synonym 'a res = "(py_error + 'a) option"

definition bind_res :: "'a res \<Rightarrow> ('a \<Rightarrow> 'b res) \<Rightarrow> 'b res" where
  "bind_res r f = (case r of None \<Rightarrow> None | Some (Inl e) \<Rightarrow> Some (Inl e) | Some (Inr x) \<Rightarrow> f x)"

fun fold_res :: "('x \<Rightarrow> 's \<Rightarrow> 's res) \<Rightarrow> 'x list \<Rightarrow> 's \<Rightarrow> 's res" where
  "fold_res f [] s = Some (Inr s)"
| "fold_res f (x # xs) s = bind_res (f x s) (fold_res f xs)"

text \<open>\<open>placeholder_map[ph] = generate_content(kind, topic, args)\<close>\<close>

definition store :: "unicode_db \<Rightarrow> ustring \<Rightarrow> string \<Rightarrow> py_args \<Rightarrow> ustring \<Rightarrow> placeholder_map \<Rightarrow> placeholder_map res" where
  "store U topic kind args ph m =
     bind_res (generate_content U kind topic args) (\<lambda>content. Some (Inr (AList.update ph content m)))"

text \<open>The body of the loop over the runs: lines 85 to 119.\<close>

definition scan_title :: "unicode_db \<Rightarrow> ustring \<Rightarrow> ustring \<Rightarrow> string \<Rightarrow> placeholder_map \<Rightarrow> placeholder_map res" where
  "scan_title U topic text typ m =
     fold_res (\<lambda>(ph, gs) m. case gs of
                  [x, y, z] \<Rightarrow> store U topic typ (ArgPair (py_int U y) (py_int U z)) ph m
                | _ \<Rightarrow> Some (Inl ValueError))
              (finditer U True (patterns typ) text) m"

definition scan_count :: "unicode_db \<Rightarrow> ustring \<Rightarrow> ustring \<Rightarrow> string \<Rightarrow> placeholder_map \<Rightarrow> placeholder_map res" where
  "scan_count U topic text typ m =
     fold_res (\<lambda>(ph, gs) m. case gs of
                  [x, y] \<Rightarrow> store U topic typ (ArgInt (py_int U y)) ph m
                | _ \<Rightarrow> Some (Inl ValueError))
              (finditer U True (patterns typ) text) m"

definition scan_static :: "unicode_db \<Rightarrow> ustring \<Rightarrow> ustring \<Rightarrow> string \<Rightarrow> placeholder_map \<Rightarrow> placeholder_map res" where
  "scan_static U topic text key m =
     (if finditer U True (patterns key) text \<noteq> []
      then store U topic key ArgNone (ustr ''{{'' @ ustr key @ ustr ''}}'') m
      else Some (Inr m))"

definition scan_icon :: "unicode_db \<Rightarrow> ustring \<Rightarrow> ustring \<Rightarrow> placeholder_map \<Rightarrow> placeholder_map res" where
  "scan_icon U topic text m =
     fold_res (\<lambda>(ph, gs) m. store U topic ''icon'' ArgNone ph m)
              (finditer U True (patterns ''icon'') text) m"

definition scan_run :: "unicode_db \<Rightarrow> ustring \<Rightarrow> ustring \<Rightarrow> placeholder_map \<Rightarrow> placeholder_map res" where
  "scan_run U topic text m =
     bind_res (fold_res (scan_title U topic text) [''title'', ''subtitle''] m) (\<lambda>m.
     bind_res (scan_count U topic text ''para'' m) (\<lambda>m.
     bind_res (scan_count U topic text ''bullet'' m) (\<lambda>m.
     bind_res (fold_res (scan_static U topic text) [''thankumess'', ''personname'', ''graphimage''] m) (\<lambda>m.
     scan_icon U topic text m))))"

definition scan_shape :: "unicode_db \<Rightarrow> ustring \<Rightarrow> shape \<Rightarrow> placeholder_map \<Rightarrow> placeholder_map res" where
  "scan_shape U topic sh m =
     (if \<not> has_text_frame sh then Some (Inr m)
      else fold_res (fold_res (scan_run U topic)) (paragraphs sh) m)"

definition scan :: "unicode_db \<Rightarrow> ustring \<Rightarrow> presentation \<Rightarrow> placeholder_map \<Rightarrow> placeholder_map res" where
  "scan U topic prs m = fold_res (\<lambda>sl. fold_res (scan_shape U topic) (shapes sl)) prs m"



text \<open>
  Lines 61 to 65: the two topic entries. The topic kind returns a list; indexing a
  string would give one character.
\<close>

definition topic_entries :: "unicode_db \<Rightarrow> ustring \<Rightarrow> placeholder_map res" where
  "topic_entries U topic =
     bind_res (generate_content U ''topic'' topic ArgNone) (\<lambda>topic_words.
       case topic_words of
         StrList ws \<Rightarrow>
           (case py_index ws 0 of
              Inl e \<Rightarrow> Some (Inl e)
            | Inr w0 \<Rightarrow>
                (case py_index ws 1 of
                   Inl e \<Rightarrow> Some (Inl e)
                 | Inr w1 \<Rightarrow>
                     Some (Inr (AList.update (ustr ''{{topic1_2}}'') (Str (str_capitalize U w1))
                                 (AList.update (ustr ''{{topic1_1}}'') (Str (str_capitalize U w0)) [])))))
       | Str w \<Rightarrow>
           (case py_index w 0 of
              Inl e \<Rightarrow> Some (Inl e)
            | Inr c0 \<Rightarrow>
                (case py_index w 1 of
                   Inl e \<Rightarrow> Some (Inl e)
                 | Inr c1 \<Rightarrow>
                     Some (Inr (AList.update (ustr ''{{topic1_2}}'') (Str (str_capitalize U [c1]))
                                 (AList.update (ustr ''{{topic1_1}}'') (Str (str_capitalize U [c0])) []))))))"

text \<open>
  \<open>generate_ppt\<close> of main.py, from the opened template to the presentation that is
  saved.
\<close>

definition generate_ppt :: "unicode_db \<Rightarrow> presentation \<Rightarrow> ustring \<Rightarrow> presentation res" where
  "generate_ppt U prs topic =
     bind_res (topic_entries U topic) (\<lambda>m0.
     bind_res (scan U topic prs m0) (\<lambda>placeholder_map.
       Some (map_err (\<lambda>sl. replace_placeholders sl placeholder_map) prs)))"

section \<open>The remote generator (main_temp.py)\<close>

text \<open>\<open>s.strip()\<close>\<close>

definition py_strip :: "ustring \<Rightarrow> ustring" where
  "py_strip s = rev (dropWhile is_space (rev (dropWhile is_space s)))"

text \<open>\<open>s.split(sep)\<close> for a separator of one character; \<open>cur\<close> is the piece being read.\<close>

fun split_on_from :: "int \<Rightarrow> ustring \<Rightarrow> ustring \<Rightarrow> ustring list" where
  "split_on_from sep cur [] = [cur]"
| "split_on_from sep cur (c # cs) =
     (if c = sep then cur # split_on_from sep [] cs else split_on_from sep (cur @ [c]) cs)"

definition split_on :: "int \<Rightarrow> ustring \<Rightarrow> ustring list" where
  "split_on sep s = split_on_from sep [] s"

text \<open>\<open>str(n)\<close> for an integer.\<close>

function str_nat :: "nat \<Rightarrow> ustring" where
  "str_nat n = (if n < 10 then [48 + int n] else str_nat (n div 10) @ [48 + int (n mod 10)])"
  by pat_completeness auto
termination
  by (relation "measure id") simp_all

declare str_nat.simps [simp del]

definition py_str :: "int \<Rightarrow> ustring" where
  "py_str i = (if i < 0 then 45 # str_nat (nat (- i)) else str_nat (nat i))"

text \<open>
  The text generation service, the image search and the download of an image are outside
  the program. A request to the service ends with a completion, with a
  \<open>RequestException\<close> (connection, timeout, status), or with another exception (a
  reply without the \<open>response\<close> field). \<open>lru_cache\<close> makes the result a function of
  the prompt. A \<open>set\<close> is iterated in an order that the program does not choose:
  \<open>set_iter\<close> gives it, from the elements in the order they were added.
  \<open>image_search\<close> is the request of \<open>get_image_url\<close> (the query, the image type, the
  category), with \<open>None\<close> for no hit and for a failed request; \<open>download\<close> is the whole
  \<open>try\<close> block that fetches the image and adds the picture, with \<open>None\<close> for any
  exception in it.
\<close>

datatype remote_outcome = Completion ustring | RequestException | Raised py_error

record services =
  remote :: "ustring \<Rightarrow> remote_outcome"
  set_iter :: "ustring list \<Rightarrow> ustring list"
  api_key :: ustring
  image_search :: "ustring \<Rightarrow> ustring \<Rightarrow> ustring \<Rightarrow> ustring option"
  download :: "ustring \<Rightarrow> ustring option"

definition error_text :: ustring where
  "error_text = ustr ''Error: Could not generate content.''"

definition generate_ollama_content :: "services \<Rightarrow> ustring \<Rightarrow> py_error + ustring" where
  "generate_ollama_content E prompt =
     (case remote E prompt of
        Completion r \<Rightarrow> Inr (py_strip r)
      | RequestException \<Rightarrow> Inr error_text
      | Raised e \<Rightarrow> Inl e)"


text \<open>\<open>re.match\<close> with the pattern, case-sensitive: the groups of a match at the start.\<close>

definition re_match :: "unicode_db \<Rightarrow> pat list \<Rightarrow> ustring \<Rightarrow> ustring list option" where
  "re_match U ps s = map_option snd (match_here U False ps s)"

definition base_prompt :: "ustring \<Rightarrow> ustring" where
  "base_prompt topic = ustr ''For a PowerPoint presentation on '' @ [39] @ topic @ [39]
     @ ustr '', generate the following content concisely and professionally:''"

text \<open>
  The branch for titles and subtitles: the pattern \<open>(title|subtitle)\<close> is tried as
  \<open>title\<close> and then as \<open>subtitle\<close>.
\<close>

definition title_content :: "unicode_db \<Rightarrow> services \<Rightarrow> ustring \<Rightarrow> string \<Rightarrow> ustring list \<Rightarrow> py_error + ustring" where
  "title_content U E topic ph_type groups =
     (case groups of
        [x, part, limit] \<Rightarrow>
          (let limit = py_int U limit;
               prompt = base_prompt topic @ ustr '' A '' @ ustr ph_type
                        @ ustr '' for a slide. It must be exactly '' @ py_str limit @ ustr '' words long.''
           in case generate_ollama_content E prompt of
                Inl e \<Rightarrow> Inl e
              | Inr content \<Rightarrow> Inr (str_title U (py_join (ustr '' '') (py_slice_to (py_split content) limit))))
      | _ \<Rightarrow> Inl ValueError)"

definition generate_content_for_placeholder ::
  "unicode_db \<Rightarrow> services \<Rightarrow> ustring \<Rightarrow> ustring \<Rightarrow> py_error + ustring" where
  "generate_content_for_placeholder U E placeholder topic =
     (if py_contains (ustr ''topic1_'') placeholder then
        (let part = py_replace (ustr ''}}'') [] (last (split_on 95 placeholder));
             prompt = base_prompt topic @ ustr '' Provide exactly two single words that capture the essence of the topic, separated by a space.''
         in case generate_ollama_content E prompt of
              Inl e \<Rightarrow> Inl e
            | Inr r \<Rightarrow>
                (let words = py_split r
                 in if length words \<ge> 2
                    then Inr (if part = ustr ''1'' then str_capitalize U (words ! 0)
                              else str_capitalize U (words ! 1))
                    else Inr (if part = ustr ''1'' then ustr ''Topic'' else ustr ''Essence'')))
      else case re_match U (lits ''{{title'' @ [Digits] @ lits ''_'' @ [Digits] @ lits ''_'' @ [Digits] @ lits ''}}'') placeholder of
        Some groups \<Rightarrow> title_content U E topic ''title'' groups
      | None \<Rightarrow>
      (case re_match U (lits ''{{subtitle'' @ [Digits] @ lits ''_'' @ [Digits] @ lits ''_'' @ [Digits] @ lits ''}}'') placeholder of
        Some groups \<Rightarrow> title_content U E topic ''subtitle'' groups
      | None \<Rightarrow>
      (case re_match U (lits ''{{para'' @ [Digits] @ lits ''_'' @ [Digits] @ lits ''}}'') placeholder of
        Some groups \<Rightarrow>
          (case groups of
             [x, limit] \<Rightarrow>
               (let limit = py_int U limit;
                    prompt = base_prompt topic @ ustr '' A paragraph of approximately '' @ py_str limit @ ustr '' words.''
                in case generate_ollama_content E prompt of
                     Inl e \<Rightarrow> Inl e
                   | Inr content \<Rightarrow>
                       Inr (str_capitalize U (py_join (ustr '' '') (py_slice_to (py_split content) limit)) @ ustr ''.''))
           | _ \<Rightarrow> Inl ValueError)
      | None \<Rightarrow>
      (case re_match U (lits ''{{bullet'' @ [Digits] @ lits ''_'' @ [Digits] @ lits ''}}'') placeholder of
        Some groups \<Rightarrow>
          (case groups of
             [x, count] \<Rightarrow>
               (let count = py_int U count;
                    prompt = base_prompt topic @ ustr '' Generate exactly '' @ py_str count
                             @ ustr '' bullet points. Each bullet point must be exactly 6 words long. Separate them with newlines.''
                in case generate_ollama_content E prompt of
                     Inl e \<Rightarrow> Inl e
                   | Inr content \<Rightarrow>
                       (let bullets = map (\<lambda>line. [8226, 32] @ py_strip line)
                                          (filter (\<lambda>line. py_strip line \<noteq> []) (split_on 10 content))
                        in Inr (py_join newline (py_slice_to bullets count))))
           | _ \<Rightarrow> Inl ValueError)
      | None \<Rightarrow>
      (if placeholder = ustr ''{{personname}}'' then
         generate_ollama_content E (base_prompt topic @ ustr '' A professional-sounding full name for the presenter.'')
       else if placeholder = ustr ''{{thankumess}}'' then
         (let limit = 12;
              prompt = base_prompt topic @ ustr '' A brief thank-you message to the audience, exactly '' @ py_str limit @ ustr '' words long.''
          in case generate_ollama_content E prompt of
               Inl e \<Rightarrow> Inl e
             | Inr content \<Rightarrow> Inr (py_join (ustr '' '') (py_slice_to (py_split content) limit)))
       else Inr placeholder)))))"

section \<open>The pipeline of main_temp.py\<close>

text \<open>
  \<open>paragraph.text\<close> is the text of the runs, and \<open>text_frame.text\<close> the texts of the
  paragraphs joined by newlines. Assigning \<open>paragraph.text\<close> leaves one run with the
  text. (Line breaks inside a paragraph are not modelled.)
\<close>

definition para_text :: "ustring list \<Rightarrow> ustring" where
  "para_text runs = concat runs"

definition frame_text :: "shape \<Rightarrow> ustring" where
  "frame_text sh = py_join newline (map para_text (paragraphs sh))"

text \<open>
  \<open>re.findall\<close> with the pattern \<open>\\{\\{.*?\\}\\}\<close>: after two opening braces, the
  shortest text without a newline that two closing braces follow.
\<close>

fun lazy_close :: "ustring \<Rightarrow> nat option" where
  "lazy_close [] = None"
| "lazy_close (c # cs) =
     (if startswith (c # cs) (ustr ''}}'') then Some 0
      else if c = 10 then None
      else map_option Suc (lazy_close cs))"

definition match_token :: "ustring \<Rightarrow> nat option" where
  "match_token s =
     (if startswith s (ustr ''{{'') then map_option (\<lambda>k. k + 4) (lazy_close (drop 2 s)) else None)"

function findall_tokens :: "ustring \<Rightarrow> ustring list" where
  "findall_tokens s =
     (case match_token s of
        Some n \<Rightarrow> take n s # (if s = [] then [] else findall_tokens (drop (max n 1) s))
      | None \<Rightarrow> (if s = [] then [] else findall_tokens (tl s)))"
  by pat_completeness auto
termination
  by (relation "measure length") auto

declare findall_tokens.simps [simp del]

text \<open>Step 1: the tokens of all text frames, as a set, and the ones that get text.\<close>

definition placeholders_to_find :: "presentation \<Rightarrow> ustring list" where
  "placeholders_to_find prs =
     remdups (concat (map (\<lambda>sl. concat (map (\<lambda>sh. if has_text_frame sh
                                                     then findall_tokens (frame_text sh) else [])
                                            (shapes sl))) prs))"

definition text_placeholders_to_generate :: "services \<Rightarrow> presentation \<Rightarrow> ustring list" where
  "text_placeholders_to_generate E prs =
     filter (\<lambda>ph. \<not> startswith ph (ustr ''{{graph'') \<and> \<not> startswith ph (ustr ''{{icon''))
            (set_iter E (placeholders_to_find prs))"

text \<open>
  The loop over the futures: the result of the task, or the token itself when the task
  raised. The tasks do not depend on each other, so the pool is run in order.
\<close>

definition resolve :: "unicode_db \<Rightarrow> services \<Rightarrow> ustring \<Rightarrow> ustring \<Rightarrow> ustring" where
  "resolve U E topic ph =
     (case generate_content_for_placeholder U E ph topic of Inr v \<Rightarrow> v | Inl exc \<Rightarrow> ph)"

definition text_placeholders :: "unicode_db \<Rightarrow> services \<Rightarrow> presentation \<Rightarrow> ustring \<Rightarrow> (ustring \<times> ustring) list" where
  "text_placeholders U E prs topic =
     foldl (\<lambda>m ph. AList.update ph (resolve U E topic ph) m) [] (text_placeholders_to_generate E prs)"











section \<open>Facts about the string and list functions\<close>

lemma py_slice_nonneg:
  "0 \<le> lo \<Longrightarrow> 0 \<le> hi \<Longrightarrow> py_slice xs lo hi = take (nat hi - nat lo) (drop (nat lo) xs)"
  by (auto simp: py_slice_def slice_index_def Let_def min_def)

lemma py_slice_to_nonneg: "0 \<le> hi \<Longrightarrow> py_slice_to xs hi = take (nat hi) xs"
  by (simp add: py_slice_to_def py_slice_nonneg)


lemma bullet_loop_once:
  "6 \<le> length base \<Longrightarrow> bullet_loop base b = Some (if length b < 6 then b @ base else b)"
  by (subst bullet_loop.simps, subst bullet_loop.simps) simp

lemma split_from_words:
  "\<forall>c \<in> set cur. \<not> is_space c \<Longrightarrow> w \<in> set (split_from cur s) \<Longrightarrow>
   w \<noteq> [] \<and> (\<forall>c \<in> set w. \<not> is_space c)"
proof (induction s arbitrary: cur)
  case Nil
  then show ?case by (cases "cur = []") simp_all
next
  case (Cons c cs)
  show ?case
  proof (cases "is_space c")
    case False
    with Cons.prems have "w \<in> set (split_from (cur @ [c]) cs)" by simp
    moreover from False Cons.prems(1) have "\<forall>d \<in> set (cur @ [c]). \<not> is_space d" by simp
    ultimately show ?thesis by (rule Cons.IH[rotated])
  next
    case True
    have nil: "\<forall>d \<in> set ([]::ustring). \<not> is_space d" by simp
    show ?thesis
    proof (cases "cur = []")
      case True
      with \<open>is_space c\<close> Cons.prems have "w \<in> set (split_from [] cs)" by simp
      with nil show ?thesis by (rule Cons.IH)
    next
      case False
      with \<open>is_space c\<close> Cons.prems have "w = cur \<or> w \<in> set (split_from [] cs)" by simp
      then show ?thesis
      proof
        assume "w = cur"
        with False Cons.prems(1) show ?thesis by simp
      next
        assume "w \<in> set (split_from [] cs)"
        with nil show ?thesis by (rule Cons.IH)
      qed
    qed
  qed
qed

lemma py_split_words: "w \<in> set (py_split s) \<Longrightarrow> w \<noteq> [] \<and> (\<forall>c \<in> set w. \<not> is_space c)"
  using split_from_words[of "[]" w s] by (simp add: py_split_def)

lemma static_words_proper: "w \<in> set static_words \<Longrightarrow> w \<noteq> [] \<and> (\<forall>c \<in> set w. \<not> is_space c)"
proof -
  have "\<forall>w \<in> set static_words. w \<noteq> [] \<and> (\<forall>c \<in> set w. \<not> is_space c)"
    by code_simp
  then show "w \<in> set static_words \<Longrightarrow> w \<noteq> [] \<and> (\<forall>c \<in> set w. \<not> is_space c)"
    by blast
qed

lemma length_static_words: "length static_words = 9"
  by (simp add: static_words_def)

lemma base_words_proper: "w \<in> set (base_words U topic) \<Longrightarrow> w \<noteq> [] \<and> (\<forall>c \<in> set w. \<not> is_space c)"
  using py_split_words static_words_proper by (auto simp: base_words_def)

lemma length_base_words: "length (base_words U topic) = length (py_split (str_lower U topic)) + 9"
  by (simp add: base_words_def length_static_words)

section \<open>The topic words\<close>

text \<open>
  C10: for every topic string, the empty one and one-word topics included, the word
  pool has at least nine words and ends with the nine static words; the topic kind
  returns exactly two words, so \<open>topic_words[0]\<close> and \<open>topic_words[1]\<close> are in
  range, and the second word is a static word when the topic has fewer than two words.
\<close>

theorem topic_words_in_bounds:
  "9 \<le> length (base_words U topic) \<and>
   suffix static_words (base_words U topic) \<and>
   generate_content U ''topic'' topic ArgNone = Some (Inr (StrList (py_slice_to (base_words U topic) 2))) \<and>
   length (py_slice_to (base_words U topic) 2) = 2 \<and>
   py_index (py_slice_to (base_words U topic) 2) 0 = Inr (base_words U topic ! 0) \<and>
   py_index (py_slice_to (base_words U topic) 2) 1 = Inr (base_words U topic ! 1) \<and>
   (length (py_split (str_lower U topic)) < 2 \<longrightarrow> base_words U topic ! 1 \<in> set static_words)"
proof -
  have len: "9 \<le> length (base_words U topic)"
    by (simp add: length_base_words)
  have suf: "suffix static_words (base_words U topic)"
    by (simp add: base_words_def suffix_def)
  have gen: "generate_content U ''topic'' topic ArgNone = Some (Inr (StrList (py_slice_to (base_words U topic) 2)))"
    by (simp add: generate_content_def)
  have sl: "py_slice_to (base_words U topic) 2 = take 2 (base_words U topic)"
    by (simp add: py_slice_to_nonneg)
  have l2: "length (py_slice_to (base_words U topic) 2) = 2"
    using len by (simp add: sl)
  have i0: "py_index (py_slice_to (base_words U topic) 2) 0 = Inr (base_words U topic ! 0)"
    using len by (simp add: sl py_index_def)
  have i1: "py_index (py_slice_to (base_words U topic) 2) 1 = Inr (base_words U topic ! 1)"
    using len by (simp add: sl py_index_def)
  have st: "base_words U topic ! 1 \<in> set static_words" if "length (py_split (str_lower U topic)) < 2"
  proof (cases "py_split (str_lower U topic)")
    case Nil
    then have "base_words U topic ! 1 = static_words ! 1" by (simp add: base_words_def)
    moreover have "static_words ! 1 \<in> set static_words"
      by (rule nth_mem) (simp add: length_static_words)
    ultimately show ?thesis by simp
  next
    case (Cons w ws)
    with that have "ws = []" by simp
    with Cons have "base_words U topic ! 1 = static_words ! 0" by (simp add: base_words_def)
    moreover have "static_words ! 0 \<in> set static_words"
      by (rule nth_mem) (simp add: length_static_words)
    ultimately show ?thesis by simp
  qed
  show ?thesis
    by (intro conjI impI len suf gen l2 i0 i1 st)
qed

theorem topic_words_in_bounds_witness:
  "length (py_split (str_lower ascii_db (ustr ''Cloud''))) < 2 \<and>
   generate_content ascii_db ''topic'' (ustr ''Cloud'') ArgNone = Some (Inr (StrList (py_slice_to (base_words ascii_db (ustr ''Cloud'')) 2))) \<and>
   base_words ascii_db (ustr ''Cloud'') ! 1 \<in> set static_words \<and>
   py_index (py_slice_to (base_words ascii_db (ustr ''Cloud'')) 2) 1 = Inr (ustr ''intelligence'')"
proof -
  have h: "length (py_split (str_lower ascii_db (ustr ''Cloud''))) < 2"
    by code_simp
  have w: "base_words ascii_db (ustr ''Cloud'') ! 1 = ustr ''intelligence''"
    by code_simp
  from topic_words_in_bounds [of ascii_db "ustr ''Cloud''"] h w show ?thesis by simp
qed

section \<open>Words, spaces and case\<close>

lemma ustr_blank: "ustr '' '' = [32]"
  by (simp add: ustr_def)

lemma is_space_blank: "is_space 32"
  by (simp add: is_space_def)






lemma split_from_append_word:
  "\<forall>c \<in> set w. \<not> is_space c \<Longrightarrow> split_from cur (w @ s) = split_from (cur @ w) s"
  by (induction w arbitrary: cur) simp_all

lemma py_split_join:
  "\<forall>w \<in> set ws. w \<noteq> [] \<and> (\<forall>c \<in> set w. \<not> is_space c) \<Longrightarrow> py_split (py_join [32] ws) = ws"
proof (induction "[32::int]" ws rule: py_join.induct)
  case 1
  show ?case by (simp add: py_split_def)
next
  case (2 x)
  then have "split_from [] (x @ []) = split_from ([] @ x) []"
    by (intro split_from_append_word) simp
  with 2 show ?case by (simp add: py_split_def)
next
  case (3 x y ys)
  from 3(2) have x: "x \<noteq> []" "\<forall>c \<in> set x. \<not> is_space c" by simp_all
  from 3(2) have rest: "\<forall>w \<in> set (y # ys). w \<noteq> [] \<and> (\<forall>c \<in> set w. \<not> is_space c)" by simp
  have "split_from [] (x @ 32 # py_join [32] (y # ys))
        = split_from ([] @ x) (32 # py_join [32] (y # ys))"
    using x(2) by (rule split_from_append_word)
  also have "\<dots> = x # split_from [] (py_join [32] (y # ys))"
    using x(1) is_space_blank by (simp del: py_join.simps)
  also have "split_from [] (py_join [32] (y # ys)) = y # ys"
    using 3(1)[OF rest] by (simp add: py_split_def)
  finally show ?case by (simp add: py_split_def)
qed










lemma set_py_join: "set (py_join sep ws) \<subseteq> set sep \<union> \<Union> (set ` set ws)"
  by (induction sep ws rule: py_join.induct) auto

section \<open>Titles and subtitles\<close>




section \<open>Paragraphs\<close>




section \<open>Bullet lists\<close>

lemma those_map_Some: "\<forall>x \<in> set xs. f x = Some (g x) \<Longrightarrow> those (map f xs) = Some (map g xs)"
  by (induction xs) simp_all

lemma bullet_line_words:
  assumes "6 \<le> length base"
  shows "bullet_line base (int i)
         = Some (ustr ''- '' @ py_join (ustr '' '')
                   (take 6 (if length (drop i base) < 6 then drop i base @ base else drop i base)))"
proof -
  have sl: "py_slice base (int i) (int i + 6) = take 6 (drop i base)"
  proof -
    have "py_slice base (int i) (int i + 6) = take (nat (int i + 6) - nat (int i)) (drop (nat (int i)) base)"
      by (intro py_slice_nonneg) simp_all
    moreover have "nat (int i + 6) - nat (int i) = 6" by simp
    ultimately show ?thesis by simp
  qed
  have lp: "bullet_loop base (take 6 (drop i base))
            = Some (if length (take 6 (drop i base)) < 6 then take 6 (drop i base) @ base
                    else take 6 (drop i base))"
    using assms by (rule bullet_loop_once)
  show ?thesis
  proof (cases "length (drop i base) < 6")
    case True
    then have "take 6 (drop i base) = drop i base" by simp
    with True lp sl show ?thesis
      by (simp add: bullet_line_def py_slice_to_nonneg del: py_join.simps)
  next
    case False
    then have "length (take 6 (drop i base)) = 6" by simp
    with False lp sl show ?thesis
      by (simp add: bullet_line_def py_slice_to_nonneg del: py_join.simps)
  qed
qed

lemma bullet_words_facts:
  assumes "6 \<le> length base"
    and "ws = take 6 (if length (drop i base) < 6 then drop i base @ base else drop i base)"
  shows "length ws = 6" and "set ws \<subseteq> set base"
proof -
  show "length ws = 6"
    using assms(1) by (simp add: assms(2))
  show "set ws \<subseteq> set base"
  proof
    fix w assume "w \<in> set ws"
    then have "w \<in> set (if length (drop i base) < 6 then drop i base @ base else drop i base)"
      unfolding assms(2) by (rule in_set_takeD)
    then show "w \<in> set base"
      by (auto split: if_splits dest: in_set_dropD)
  qed
qed

text \<open>
  C2: for a count \<open>Y \<ge> 0\<close> the bullet list is \<open>Y\<close> lines joined by newlines. Line
  \<open>i\<close> (from 0) is \<open>- \<close> followed by six words joined by single spaces: the pool words
  from offset \<open>i\<close>, with the whole pool appended once more when fewer than six remain.
  Each line splits into the dash and exactly these six words and holds no newline.
\<close>

theorem bullet_lines:
  assumes "0 \<le> Y"
  shows "generate_content U ''bullet'' topic (ArgInt Y)
           = Some (Inr (Str (py_join newline
               (map (\<lambda>i. ustr ''- '' @ py_join (ustr '' '')
                      (take 6 (if length (drop i (base_words U topic)) < 6
                               then drop i (base_words U topic) @ base_words U topic
                               else drop i (base_words U topic))))
                    [0..<nat Y])))) \<and>
         (\<forall>i < nat Y.
            let ws = take 6 (if length (drop i (base_words U topic)) < 6
                             then drop i (base_words U topic) @ base_words U topic
                             else drop i (base_words U topic))
            in length ws = 6 \<and>
               py_split (ustr ''- '' @ py_join (ustr '' '') ws) = ustr ''-'' # ws \<and>
               10 \<notin> set (ustr ''- '' @ py_join (ustr '' '') ws))"
proof -
  define bw where "bw = base_words U topic"
  define line where "line = (\<lambda>i. ustr ''- '' @ py_join (ustr '' '')
      (take 6 (if length (drop i bw) < 6 then drop i bw @ bw else drop i bw)))"
  have len: "6 \<le> length bw"
    using length_base_words[of U topic] by (simp add: bw_def)
  have "\<forall>x \<in> set [0..<nat Y]. (bullet_line bw \<circ> int) x = Some (line x)"
    using bullet_line_words[OF len] by (simp add: line_def)
  then have "those (map (bullet_line bw \<circ> int) [0..<nat Y]) = Some (map line [0..<nat Y])"
    by (rule those_map_Some)
  then have th: "those (map (bullet_line bw) (py_range Y)) = Some (map line [0..<nat Y])"
    by (simp add: py_range_def)
  have gen: "generate_content U ''bullet'' topic (ArgInt Y)
             = Some (Inr (Str (py_join newline (map line [0..<nat Y]))))"
    using th by (simp add: generate_content_def bw_def[symmetric])
  have dash: "ustr ''- '' = [45, 32]" "ustr ''-'' = [45]"
    by (simp_all add: ustr_def)
  have lines: "length ws = 6 \<and> py_split (ustr ''- '' @ py_join (ustr '' '') ws) = ustr ''-'' # ws \<and>
               10 \<notin> set (ustr ''- '' @ py_join (ustr '' '') ws)"
    if ws: "ws = take 6 (if length (drop i bw) < 6 then drop i bw @ bw else drop i bw)" for i ws
  proof -
    have l6: "length ws = 6" and sub: "set ws \<subseteq> set bw"
      using bullet_words_facts[OF len ws] by simp_all
    have proper: "\<forall>w \<in> set ws. w \<noteq> [] \<and> (\<forall>c \<in> set w. \<not> is_space c)"
      using sub base_words_proper[of _ U topic] unfolding bw_def by blast
    from l6 obtain x xs where xs: "ws = x # xs" by (cases ws) simp_all
    have j: "ustr ''- '' @ py_join (ustr '' '') ws = py_join [32] ([45] # ws)"
      by (simp add: xs dash ustr_blank)
    have "\<forall>w \<in> set ([45] # ws). w \<noteq> [] \<and> (\<forall>c \<in> set w. \<not> is_space c)"
      using proper by (simp add: is_space_def)
    then have sp: "py_split (py_join [32] ([45] # ws)) = [45] # ws"
      by (rule py_split_join)
    have nl: "10 \<notin> set (py_join [32] ([45] # ws))"
    proof
      assume "10 \<in> set (py_join [32] ([45] # ws))"
      with set_py_join[of "[32]" "[45] # ws"]
      have "10 \<in> set [32::int] \<or> (\<exists>w \<in> set ([45] # ws). 10 \<in> set w)" by blast
      then obtain w where "w \<in> set ws" "10 \<in> set w" by auto
      with proper have "\<not> is_space 10" by blast
      then show False by (simp add: is_space_def)
    qed
    show ?thesis unfolding j dash(2) using l6 sp nl by blast
  qed
  from gen lines show ?thesis
    unfolding Let_def line_def bw_def by blast
qed

theorem bullet_lines_witness:
  "(0::int) \<le> 5 \<and>
   generate_content ascii_db ''bullet'' [] (ArgInt 5)
     = Some (Inr (Str (ustr ''- intelligence systems automation future solutions insights\<newline>- systems automation future solutions insights tech\<newline>- automation future solutions insights tech performance\<newline>- future solutions insights tech performance management\<newline>- solutions insights tech performance management intelligence''))) \<and>
   (4::nat) < nat 5 \<and>
   py_split (ustr ''- solutions insights tech performance management intelligence'')
     = map ustr [''-'', ''solutions'', ''insights'', ''tech'', ''performance'', ''management'', ''intelligence'']"
proof -
  have h: "(0::int) \<le> 5" by simp
  note T = bullet_lines[OF h, of ascii_db "[]"]
  have e: "py_join newline
             (map (\<lambda>i. ustr ''- '' @ py_join (ustr '' '')
                    (take 6 (if length (drop i (base_words ascii_db [])) < 6
                             then drop i (base_words ascii_db []) @ base_words ascii_db []
                             else drop i (base_words ascii_db []))))
                  [0..<nat 5])
           = ustr ''- intelligence systems automation future solutions insights\<newline>- systems automation future solutions insights tech\<newline>- automation future solutions insights tech performance\<newline>- future solutions insights tech performance management\<newline>- solutions insights tech performance management intelligence''"
    by code_simp
  have w4: "take 6 (if length (drop 4 (base_words ascii_db [])) < 6
                    then drop 4 (base_words ascii_db []) @ base_words ascii_db []
                    else drop 4 (base_words ascii_db []))
            = map ustr [''solutions'', ''insights'', ''tech'', ''performance'', ''management'', ''intelligence'']"
    by code_simp
  have g: "generate_content ascii_db ''bullet'' [] (ArgInt 5)
     = Some (Inr (Str (ustr ''- intelligence systems automation future solutions insights\<newline>- systems automation future solutions insights tech\<newline>- automation future solutions insights tech performance\<newline>- future solutions insights tech performance management\<newline>- solutions insights tech performance management intelligence'')))"
    using T unfolding e by (rule conjunct1)
  have lt: "(4::nat) < nat 5" by simp
  from T have "\<forall>i < nat 5.
            let ws = take 6 (if length (drop i (base_words ascii_db [])) < 6
                             then drop i (base_words ascii_db []) @ base_words ascii_db []
                             else drop i (base_words ascii_db []))
            in length ws = 6 \<and>
               py_split (ustr ''- '' @ py_join (ustr '' '') ws) = ustr ''-'' # ws \<and>
               10 \<notin> set (ustr ''- '' @ py_join (ustr '' '') ws)"
    by (rule conjunct2)
  then have "4 < nat 5 \<longrightarrow>
            (let ws = take 6 (if length (drop 4 (base_words ascii_db [])) < 6
                             then drop 4 (base_words ascii_db []) @ base_words ascii_db []
                             else drop 4 (base_words ascii_db []))
            in length ws = 6 \<and>
               py_split (ustr ''- '' @ py_join (ustr '' '') ws) = ustr ''-'' # ws \<and>
               10 \<notin> set (ustr ''- '' @ py_join (ustr '' '') ws))"
    by (rule spec)
  with lt have "py_split (ustr ''- '' @ py_join (ustr '' '')
        (map ustr [''solutions'', ''insights'', ''tech'', ''performance'', ''management'', ''intelligence'']))
      = ustr ''-'' # map ustr [''solutions'', ''insights'', ''tech'', ''performance'', ''management'', ''intelligence'']"
    unfolding Let_def w4 by blast
  moreover have "ustr ''- '' @ py_join (ustr '' '')
        (map ustr [''solutions'', ''insights'', ''tech'', ''performance'', ''management'', ''intelligence''])
      = ustr ''- solutions insights tech performance management intelligence''"
    by code_simp
  ultimately have s: "py_split (ustr ''- solutions insights tech performance management intelligence'')
     = map ustr [''-'', ''solutions'', ''insights'', ''tech'', ''performance'', ''management'', ''intelligence'']"
    by simp
  from h g lt s show ?thesis by blast
qed

section \<open>Rewriting the runs (main.py)\<close>

text \<open>
  C1: the claim says that every key of the map is replaced in a frame's text, also when
  one run holds two keys. In main.py the text of the run is read once before the loop
  over the map, and every replacement is made on that text and assigned to the run: only
  the replacement of the last key found survives. A run that holds the two topic tokens
  of a title, for the topic \<open>Cloud Security\<close>, keeps the first token.
\<close>

theorem replace_placeholders_keeps_first_key:
  "generate_ppt ascii_db
     [\<lparr>shapes = [\<lparr>shape_id = 0, has_text_frame = True,
                  paragraphs = [[ustr ''{{topic1_1}} {{topic1_2}}'']],
                  sh_left = 0, sh_top = 0, sh_width = 100, sh_height = 20, image = None\<rparr>],
       title = None\<rparr>]
     (ustr ''Cloud Security'')
   = Some (Inr
     [\<lparr>shapes = [\<lparr>shape_id = 0, has_text_frame = True,
                  paragraphs = [[ustr ''{{topic1_1}} Security'']],
                  sh_left = 0, sh_top = 0, sh_width = 100, sh_height = 20, image = None\<rparr>],
       title = None\<rparr>])"
  by code_simp

section \<open>Tokens that are not of the grammar (main_temp.py)\<close>


section \<open>A shape with both image tokens (main_temp.py)\<close>


section \<open>Counterexamples\<close>


text \<open>
  Against C6 as stated: in main_temp.py the token \<open>{{graphimage}}\<close> is found by the
  scan and gets no entry in the map.
\<close>

theorem graph_token_without_entry_counterexample:
  "placeholders_to_find
     [\<lparr>shapes = [\<lparr>shape_id = 0, has_text_frame = True,
                  paragraphs = [[ustr ''{{graphimage}}'']],
                  sh_left = 0, sh_top = 0, sh_width = 100, sh_height = 20, image = None\<rparr>],
       title = None\<rparr>]
   = [ustr ''{{graphimage}}''] \<and>
   text_placeholders ascii_db
     \<lparr>remote = (\<lambda>prompt. Completion (ustr ''Cloud Security'')), set_iter = (\<lambda>xs. xs),
      api_key = ustr ''YOUR_PIXABAY_API_KEY'', image_search = (\<lambda>q t c. None),
      download = (\<lambda>url. None)\<rparr>
     [\<lparr>shapes = [\<lparr>shape_id = 0, has_text_frame = True,
                  paragraphs = [[ustr ''{{graphimage}}'']],
                  sh_left = 0, sh_top = 0, sh_width = 100, sh_height = 20, image = None\<rparr>],
       title = None\<rparr>]
     (ustr ''Cloud Security'')
   = []"
  by code_simp


section \<open>Facts about matching and scanning\<close>






lemma bind_res_Inr:
  "bind_res r f = Some (Inr y) \<Longrightarrow> \<exists>x. r = Some (Inr x) \<and> f x = Some (Inr y)"
  by (auto simp: bind_res_def split: option.splits sum.splits)



section \<open>The entries of the text tokens (main_temp.py)\<close>


lemma distinct_foldl_update:
  "distinct (map fst m0) \<Longrightarrow> distinct (map fst (foldl (\<lambda>m ph. AList.update ph (f ph) m) m0 phs))"
proof (induction phs arbitrary: m0)
  case Nil
  then show ?case by simp
next
  case (Cons x xs)
  from Cons.prems have "distinct (map fst (AList.update x (f x) m0))" by (rule distinct_update)
  then have "distinct (map fst (foldl (\<lambda>m ph. AList.update ph (f ph) m) (AList.update x (f x) m0) xs))"
    by (rule Cons.IH)
  then show ?case by simp
qed




section \<open>What the scan of main.py stores\<close>






lemma store_Inr:
  "store U topic kind args ph m = Some (Inr m') \<Longrightarrow> \<exists>v. m' = AList.update ph v m"
  unfolding store_def by (drule bind_res_Inr) auto

lemma store_other:
  assumes "store U topic kind args ph m = Some (Inr m')" and "ph \<noteq> k"
  shows "map_of m' k = map_of m k"
proof -
  from store_Inr[OF assms(1)] obtain v where "m' = AList.update ph v m" by blast
  with assms(2) show ?thesis by (simp add: update_conv')
qed


section \<open>The scan of main.py always ends with a map\<close>


















section \<open>What the scan of main.py keeps\<close>
















section \<open>The topic tokens\<close>









end
